theory Spec2Isabelle
  imports Complex_Main
begin

section \<open>Errors\<close>

text \<open>
  \<open>UserError\<close> carries an identifier and a message; \<open>ArgumentError\<close> extends it with the
  offending parameter. The facade's result type is
  \<open>Result<T, UserError | ArgumentError<T>>\<close>, modelled as a sum with the error on the left.
\<close>

record UserError =
  "identifier" :: string
  message :: string

record ArgumentError = UserError +
  parameter :: string

datatype ArgsError = IsUserError UserError | IsArgumentError ArgumentError

text \<open>
  Modelled from the spec: the \<open>Identifiers\<close> enumeration (lib/errors/Identifiers) is not among
  the sources. The spec requires the failure kinds to be distinguishable by identifier; the
  two used by the argument facade are given distinct string values.
\<close>

definition Identifiers_ArgsMissing :: string where
  "Identifiers_ArgsMissing = ''argsMissing''"

definition Identifiers_ArgsUnavailable :: string where
  "Identifiers_ArgsUnavailable = ''argsUnavailable''"

section \<open>Token stream\<close>

text \<open>
  Modelled from the spec: \<open>ArgumentStream\<close> and \<open>join\<close> come from the lexure package, which is
  not among the sources. Following section 4.1 of the spec, the stream owns a cursor over an
  immutable ordered sequence of positional tokens; a saved \<open>State\<close> is the cursor position, and
  restoring it is an exact rewind.
\<close>

type_synonym State = nat

record ArgumentStream =
  ordered :: "string list"
  state :: State

definition finished :: "ArgumentStream \<Rightarrow> bool" where
  "finished p = (length (ordered p) \<le> state p)"

definition save_stream :: "ArgumentStream \<Rightarrow> State" where
  "save_stream p = state p"

definition restore_stream :: "State \<Rightarrow> ArgumentStream \<Rightarrow> ArgumentStream" where
  "restore_stream s p = p\<lparr>state := s\<rparr>"

definition reset :: "ArgumentStream \<Rightarrow> ArgumentStream" where
  "reset p = restore_stream 0 p"

text \<open>
  \<open>singleParseAsync\<close>: with no token left the error is the sentinel \<open>null\<close> (here \<open>Inl None\<close>);
  otherwise the transform runs on the current token and the cursor advances only when it
  succeeds.
\<close>

definition singleParseAsync ::
  "(string \<Rightarrow> 'e + 'v) \<Rightarrow> ArgumentStream \<Rightarrow> ('e option + 'v) \<times> ArgumentStream" where
  "singleParseAsync predicate p =
     (if finished p then (Inl None, p)
      else (case predicate (ordered p ! state p) of
              Inl e \<Rightarrow> (Inl (Some e), p)
            | Inr v \<Rightarrow> (Inr v, p\<lparr>state := Suc (state p)\<rparr>)))"

text \<open>\<open>many\<close>: all remaining tokens, consumed; absent when none remain.\<close>

definition many :: "ArgumentStream \<Rightarrow> string list option \<times> ArgumentStream" where
  "many p =
     (if finished p then (None, p)
      else (Some (drop (state p) (ordered p)), p\<lparr>state := length (ordered p)\<rparr>))"

definition unwrapOr :: "'a option \<Rightarrow> 'a \<Rightarrow> 'a" where
  "unwrapOr opt d = (case opt of None \<Rightarrow> d | Some v \<Rightarrow> v)"

fun join :: "string list \<Rightarrow> string" where
  "join [] = []"
| "join [x] = x"
| "join (x # y # ys) = x @ '' '' @ join (y # ys)"

section \<open>Argument types\<close>

text \<open>
  A resolver (\<open>IArgument.run\<close>) receives the raw text, the invocation context of the facade
  (message, command, command context: the type \<open>'c\<close>) and the options of the call (\<open>'o\<close>), and
  returns a success value or an \<open>ArgumentError\<close>, as its declared result type says.
\<close>

record ('c, 'o, 'v) IArgument =
  name :: string
  run :: "string \<Rightarrow> 'c \<Rightarrow> 'o \<Rightarrow> ArgumentError + 'v"

datatype ('c, 'o, 'v) ArgType =
    TypeName string
  | TypeObject "('c, 'o, 'v) IArgument"

text \<open>
  The option \<open>times\<close> of \<open>repeatResult\<close> is a JavaScript number: a finite value, which need not
  be whole or positive, an infinity, or \<open>NaN\<close>. The loop counter \<open>i\<close> starts at 0 and grows by
  one for each token consumed, so it is a natural number; \<open>counterLess i t\<close> is the
  comparison \<open>i < times\<close> of the loop header.
\<close>

datatype Number = Finite rat | PlusInfinity | MinusInfinity | NaN

fun counterLess :: "nat \<Rightarrow> Number \<Rightarrow> bool" where
  "counterLess i (Finite q) = (of_nat i < q)"
| "counterLess i PlusInfinity = True"
| "counterLess i MinusInfinity = False"
| "counterLess i NaN = False"

record ('c, 'o, 'v) ArgsOptions =
  type :: "('c, 'o, 'v) ArgType"
  times :: "Number option"
  other :: 'o

type_synonym ('c, 'o, 'v) ArgumentStore = "string \<rightharpoonup> ('c, 'o, 'v) IArgument"

section \<open>The argument facade\<close>

record 'c MessageArgs =
  commandContext :: 'c
  parser :: ArgumentStream
  states :: "State list"

text \<open>
  Modelled from the spec: \<open>resolveArgument\<close>, \<open>unavailableArgument\<close> and \<open>missingArguments\<close> are
  inherited from the base class \<open>Args\<close>, which is not among the sources. A type name is looked
  up in the registry (absent: the "unknown argument type" error); a resolver object is used
  as it is; an exhausted stream gives the "missing argument" error.
\<close>

definition resolveArgument ::
  "('c, 'o, 'v) ArgumentStore \<Rightarrow> ('c, 'o, 'v) ArgType \<Rightarrow> ('c, 'o, 'v) IArgument option" where
  "resolveArgument store arg =
     (case arg of TypeObject a \<Rightarrow> Some a | TypeName n \<Rightarrow> store n)"

definition typeName :: "('c, 'o, 'v) ArgType \<Rightarrow> string" where
  "typeName arg = (case arg of TypeObject a \<Rightarrow> name a | TypeName n \<Rightarrow> n)"

definition unavailableArgument :: "('c, 'o, 'v) ArgType \<Rightarrow> ArgsError + 'r" where
  "unavailableArgument t =
     Inl (IsUserError \<lparr>identifier = Identifiers_ArgsUnavailable,
                       message = ''The argument \"'' @ typeName t @ ''\" was not found.''\<rparr>)"

definition missingArguments :: "ArgsError + 'r" where
  "missingArguments =
     Inl (IsUserError \<lparr>identifier = Identifiers_ArgsMissing,
                       message = ''There are no more arguments.''\<rparr>)"

definition start :: "'c MessageArgs \<Rightarrow> 'c MessageArgs" where
  "start a = a\<lparr>parser := reset (parser a)\<rparr>"

definition pickResult ::
  "('c, 'o, 'v) ArgumentStore \<Rightarrow> ('c, 'o, 'v) ArgsOptions \<Rightarrow> 'c MessageArgs
     \<Rightarrow> (ArgsError + 'v) \<times> 'c MessageArgs" where
  "pickResult store options a =
     (case resolveArgument store (type options) of
        None \<Rightarrow> (unavailableArgument (type options), a)
      | Some argument \<Rightarrow>
          (case singleParseAsync (\<lambda>arg. run argument arg (commandContext a) (other options))
                  (parser a) of
             (Inl None, p) \<Rightarrow> (missingArguments, a\<lparr>parser := p\<rparr>)
           | (Inl (Some e), p) \<Rightarrow> (Inl (IsArgumentError e), a\<lparr>parser := p\<rparr>)
           | (Inr v, p) \<Rightarrow> (Inr v, a\<lparr>parser := p\<rparr>)))"

definition restResult ::
  "('c, 'o, 'v) ArgumentStore \<Rightarrow> ('c, 'o, 'v) ArgsOptions \<Rightarrow> 'c MessageArgs
     \<Rightarrow> (ArgsError + 'v) \<times> 'c MessageArgs" where
  "restResult store options a =
     (case resolveArgument store (type options) of
        None \<Rightarrow> (unavailableArgument (type options), a)
      | Some argument \<Rightarrow>
          if finished (parser a) then (missingArguments, a)
          else
            (let saved = save_stream (parser a);
                 (params, p) = many (parser a);
                 data = join (unwrapOr params [])
             in (case run argument data (commandContext a) (other options) of
                   Inl e \<Rightarrow> (Inl (IsArgumentError e), a\<lparr>parser := restore_stream saved p\<rparr>)
                 | Inr v \<Rightarrow> (Inr v, a\<lparr>parser := p\<rparr>))))"

text \<open>
  The loop of \<open>repeatResult\<close>: \<open>i\<close> counts the iterations, \<open>output\<close> collects the values. It
  stops when the bound is reached, when no token is left, or when the resolver fails; a
  resolver failure is returned as the error only while \<open>output\<close> is still empty.
\<close>

function repeatLoop ::
  "('c, 'o, 'v) IArgument \<Rightarrow> 'o \<Rightarrow> Number \<Rightarrow> nat \<Rightarrow> 'v list \<Rightarrow> 'c MessageArgs
     \<Rightarrow> (ArgsError + 'v list) \<times> 'c MessageArgs" where
  "repeatLoop argument opts n i output a =
     (if counterLess i n then
        (case singleParseAsync (\<lambda>arg. run argument arg (commandContext a) opts) (parser a) of
           (Inl None, p) \<Rightarrow> (Inr output, a\<lparr>parser := p\<rparr>)
         | (Inl (Some e), p) \<Rightarrow>
             if length output = 0 then (Inl (IsArgumentError e), a\<lparr>parser := p\<rparr>)
             else (Inr output, a\<lparr>parser := p\<rparr>)
         | (Inr v, p) \<Rightarrow> repeatLoop argument opts n (Suc i) (output @ [v]) (a\<lparr>parser := p\<rparr>))
      else (Inr output, a))"
  by pat_completeness auto
termination
  by (relation "measure (\<lambda>(argument, opts, n, i, output, a).
                    length (ordered (parser a)) - state (parser a))")
     (auto simp: singleParseAsync_def finished_def split: if_splits sum.splits)

declare repeatLoop.simps [simp del]

definition repeatResult ::
  "('c, 'o, 'v) ArgumentStore \<Rightarrow> ('c, 'o, 'v) ArgsOptions \<Rightarrow> 'c MessageArgs
     \<Rightarrow> (ArgsError + 'v list) \<times> 'c MessageArgs" where
  "repeatResult store options a =
     (case resolveArgument store (type options) of
        None \<Rightarrow> (unavailableArgument (type options), a)
      | Some argument \<Rightarrow>
          if finished (parser a) then (missingArguments, a)
          else repeatLoop argument (other options) (unwrapOr (times options) PlusInfinity) 0 [] a)"

text \<open>
  The variants \<open>pick\<close>, \<open>rest\<close> and \<open>repeat\<close> return the value on success and throw the error
  otherwise (\<open>unwrapRaw\<close>). A call of the facade that may throw completes by returning a
  value or by throwing, in either case with the facade as the call left it.
\<close>

datatype ('x, 'r) Completion = Returns 'r | Throws 'x

definition unwrapRaw :: "('e + 'r) \<times> 's \<Rightarrow> ('e, 'r) Completion \<times> 's" where
  "unwrapRaw r = (case r of (Inl e, s) \<Rightarrow> (Throws e, s) | (Inr v, s) \<Rightarrow> (Returns v, s))"

definition pick ::
  "('c, 'o, 'v) ArgumentStore \<Rightarrow> ('c, 'o, 'v) ArgsOptions \<Rightarrow> 'c MessageArgs
     \<Rightarrow> (ArgsError, 'v) Completion \<times> 'c MessageArgs" where
  "pick store options a = unwrapRaw (pickResult store options a)"

definition rest ::
  "('c, 'o, 'v) ArgumentStore \<Rightarrow> ('c, 'o, 'v) ArgsOptions \<Rightarrow> 'c MessageArgs
     \<Rightarrow> (ArgsError, 'v) Completion \<times> 'c MessageArgs" where
  "rest store options a = unwrapRaw (restResult store options a)"

definition repeat ::
  "('c, 'o, 'v) ArgumentStore \<Rightarrow> ('c, 'o, 'v) ArgsOptions \<Rightarrow> 'c MessageArgs
     \<Rightarrow> (ArgsError, 'v list) Completion \<times> 'c MessageArgs" where
  "repeat store options a = unwrapRaw (repeatResult store options a)"

definition save :: "'c MessageArgs \<Rightarrow> 'c MessageArgs" where
  "save a = a\<lparr>states := states a @ [save_stream (parser a)]\<rparr>"

definition restore :: "'c MessageArgs \<Rightarrow> 'c MessageArgs" where
  "restore a =
     (if length (states a) \<noteq> 0
      then a\<lparr>parser := restore_stream (last (states a)) (parser a),
              states := butlast (states a)\<rparr>
      else a)"

text \<open>
  \<open>peekResult\<close> takes either an argument type, and then runs \<open>pickResult\<close>, or a function of the
  caller that runs extractions of the facade. Such a function is represented by the calls it
  makes: a call of \<open>pickResult\<close>, \<open>restResult\<close> or \<open>repeatResult\<close>, whose result it returns; a
  call of \<open>pick\<close>, \<open>rest\<close> or \<open>repeat\<close>, whose value it returns as a success and whose exception
  it lets through; or one function body followed by another, the second running only when
  the first has returned. The peeked value is a single value or, for the repeating calls, a
  list.
\<close>

datatype 'v Peeked = Single 'v | Multiple "'v list"

datatype ('c, 'o, 'v) Extraction =
    CallPickResult "('c, 'o, 'v) ArgsOptions"
  | CallRestResult "('c, 'o, 'v) ArgsOptions"
  | CallRepeatResult "('c, 'o, 'v) ArgsOptions"
  | CallPick "('c, 'o, 'v) ArgsOptions"
  | CallRest "('c, 'o, 'v) ArgsOptions"
  | CallRepeat "('c, 'o, 'v) ArgsOptions"
  | Then "('c, 'o, 'v) Extraction" "('c, 'o, 'v) Extraction"

datatype ('c, 'o, 'v) PeekArgsOptions =
    PeekFunction "('c, 'o, 'v) Extraction"
  | PeekArgument "('c, 'o, 'v) ArgsOptions"

definition asResult :: "('a \<Rightarrow> 'b) \<Rightarrow> ('e + 'a) \<times> 's \<Rightarrow> ('e + 'b) \<times> 's" where
  "asResult f r = (case r of (Inl e, s) \<Rightarrow> (Inl e, s) | (Inr v, s) \<Rightarrow> (Inr (f v), s))"

definition returned :: "'r \<times> 's \<Rightarrow> ('x, 'r) Completion \<times> 's" where
  "returned r = (case r of (v, s) \<Rightarrow> (Returns v, s))"

definition asSuccess ::
  "('a \<Rightarrow> 'b) \<Rightarrow> ('x, 'a) Completion \<times> 's \<Rightarrow> ('x, 'e + 'b) Completion \<times> 's" where
  "asSuccess f r =
     (case r of (Throws x, s) \<Rightarrow> (Throws x, s) | (Returns v, s) \<Rightarrow> (Returns (Inr (f v)), s))"

fun callExtraction ::
  "('c, 'o, 'v) ArgumentStore \<Rightarrow> ('c, 'o, 'v) Extraction \<Rightarrow> 'c MessageArgs
     \<Rightarrow> (ArgsError, ArgsError + 'v Peeked) Completion \<times> 'c MessageArgs" where
  "callExtraction store (CallPickResult options) a =
     returned (asResult Single (pickResult store options a))"
| "callExtraction store (CallRestResult options) a =
     returned (asResult Single (restResult store options a))"
| "callExtraction store (CallRepeatResult options) a =
     returned (asResult Multiple (repeatResult store options a))"
| "callExtraction store (CallPick options) a = asSuccess Single (pick store options a)"
| "callExtraction store (CallRest options) a = asSuccess Single (rest store options a)"
| "callExtraction store (CallRepeat options) a = asSuccess Multiple (repeat store options a)"
| "callExtraction store (Then f g) a =
     (case callExtraction store f a of
        (Throws x, a') \<Rightarrow> (Throws x, a')
      | (Returns r, a') \<Rightarrow> callExtraction store g a')"

text \<open>
  \<open>peekResult\<close> has no \<open>try\<close>: when the awaited function throws, the exception leaves
  \<open>peekResult\<close> before \<open>this.restore()\<close> is reached.
\<close>

definition peekResult ::
  "('c, 'o, 'v) ArgumentStore \<Rightarrow> ('c, 'o, 'v) PeekArgsOptions \<Rightarrow> 'c MessageArgs
     \<Rightarrow> (ArgsError, ArgsError + 'v Peeked) Completion \<times> 'c MessageArgs" where
  "peekResult store options a =
     (let a1 = save a
      in (case (case options of
                  PeekFunction f \<Rightarrow> callExtraction store f a1
                | PeekArgument opts \<Rightarrow> returned (asResult Single (pickResult store opts a1))) of
            (Throws x, a2) \<Rightarrow> (Throws x, a2)
          | (Returns result, a2) \<Rightarrow> (Returns result, restore a2)))"

definition peek ::
  "('c, 'o, 'v) ArgumentStore \<Rightarrow> ('c, 'o, 'v) PeekArgsOptions \<Rightarrow> 'c MessageArgs
     \<Rightarrow> (ArgsError, 'v Peeked) Completion \<times> 'c MessageArgs" where
  "peek store options a =
     (case peekResult store options a of
        (Throws x, a') \<Rightarrow> (Throws x, a')
      | (Returns result, a') \<Rightarrow> unwrapRaw (result, a'))"

section \<open>Run-context preconditions\<close>

text \<open>
  Modelled from the spec: the channel kinds are the \<open>ChannelType\<close> enumeration of discord.js,
  and \<open>ok\<close>, \<open>error\<close> and \<open>fetchChannelFromInteraction\<close> are inherited from the precondition base
  class; none of them is among the sources. A precondition result is ok (no payload) or an
  error with identifier, message and optional context. The channel of an interaction is
  obtained by \<open>fetchChannelFromInteraction\<close>, a parameter of the two interaction entry points.
\<close>

datatype ChannelType =
    GuildText | DM | GuildVoice | GroupDM | GuildCategory | GuildNews | GuildNewsThread
  | GuildPublicThread | GuildPrivateThread | GuildStageVoice | GuildDirectory | GuildForum

record Channel =
  channelType :: ChannelType

record Message =
  channel :: Channel
  thread :: "Channel option"

definition Identifiers_PreconditionRunIn :: string where
  "Identifiers_PreconditionRunIn = ''preconditionRunIn''"

definition Identifiers_PreconditionGuildNewsOnly :: string where
  "Identifiers_PreconditionGuildNewsOnly = ''preconditionGuildNewsOnly''"

definition Identifiers_PreconditionGuildNewsThreadOnly :: string where
  "Identifiers_PreconditionGuildNewsThreadOnly = ''preconditionGuildNewsThreadOnly''"

definition ok :: "'e + unit" where
  "ok = Inr ()"

definition error :: "'e \<Rightarrow> 'e + unit" where
  "error e = Inl e"

subsection \<open>RunIn\<close>

text \<open>
  Modelled from the spec: \<open>RunInPreconditionCommandSpecificData\<close> is declared with the
  precondition base class; it maps each transport name to its own allow-list.
\<close>

record RunInPreconditionCommandSpecificData =
  messageRun :: "ChannelType list"
  chatInputRun :: "ChannelType list"
  contextMenuRun :: "ChannelType list"

datatype RunInTypes =
    TypesArray "ChannelType list"
  | TypesSpecific RunInPreconditionCommandSpecificData

record RunInPreconditionContext =
  types :: "RunInTypes option"

record RunInError = UserError +
  "context" :: "RunInTypes option"

definition "includes" :: "'a list \<Rightarrow> 'a \<Rightarrow> bool" where
  "includes xs x = (x \<in> set xs)"

definition makeSharedError :: "RunInPreconditionContext \<Rightarrow> RunInError + unit" where
  "makeSharedError ctx =
     error \<lparr>identifier = Identifiers_PreconditionRunIn,
            message = ''You cannot run this message command in this type of channel.'',
            context = types ctx\<rparr>"

definition RunIn_messageRun :: "Message \<Rightarrow> RunInPreconditionContext \<Rightarrow> RunInError + unit" where
  "RunIn_messageRun msg ctx =
     (case types ctx of
        None \<Rightarrow> ok
      | Some ts \<Rightarrow>
          (let ct = channelType (channel msg)
           in (case ts of
                 TypesArray arr \<Rightarrow> if includes arr ct then ok else makeSharedError ctx
               | TypesSpecific d \<Rightarrow>
                   if includes (messageRun d) ct then ok else makeSharedError ctx)))"

definition RunIn_chatInputRun ::
  "('i \<Rightarrow> Channel) \<Rightarrow> 'i \<Rightarrow> RunInPreconditionContext \<Rightarrow> RunInError + unit" where
  "RunIn_chatInputRun fetchChannelFromInteraction interaction ctx =
     (case types ctx of
        None \<Rightarrow> ok
      | Some ts \<Rightarrow>
          (let ct = channelType (fetchChannelFromInteraction interaction)
           in (case ts of
                 TypesArray arr \<Rightarrow> if includes arr ct then ok else makeSharedError ctx
               | TypesSpecific d \<Rightarrow>
                   if includes (chatInputRun d) ct then ok else makeSharedError ctx)))"

definition RunIn_contextMenuRun ::
  "('i \<Rightarrow> Channel) \<Rightarrow> 'i \<Rightarrow> RunInPreconditionContext \<Rightarrow> RunInError + unit" where
  "RunIn_contextMenuRun fetchChannelFromInteraction interaction ctx =
     (case types ctx of
        None \<Rightarrow> ok
      | Some ts \<Rightarrow>
          (let ct = channelType (fetchChannelFromInteraction interaction)
           in (case ts of
                 TypesArray arr \<Rightarrow> if includes arr ct then ok else makeSharedError ctx
               | TypesSpecific d \<Rightarrow>
                   if includes (contextMenuRun d) ct then ok else makeSharedError ctx)))"

subsection \<open>GuildNewsThreadOnly\<close>

text \<open>
  The message entry point reads the optional \<open>thread\<close> of the message
  (\<open>message.thread?.type\<close>: absent compares unequal); the interaction entry points read the
  fetched channel.
\<close>

definition GuildNewsThreadOnly_messageRun :: "Message \<Rightarrow> UserError + unit" where
  "GuildNewsThreadOnly_messageRun msg =
     (if map_option channelType (thread msg) = Some GuildNewsThread then ok
      else error \<lparr>identifier = Identifiers_PreconditionGuildNewsThreadOnly,
                  message = ''You can only run this message command in server announcement thread channels.''\<rparr>)"

definition GuildNewsThreadOnly_chatInputRun :: "('i \<Rightarrow> Channel) \<Rightarrow> 'i \<Rightarrow> UserError + unit" where
  "GuildNewsThreadOnly_chatInputRun fetchChannelFromInteraction interaction =
     (let ch = fetchChannelFromInteraction interaction
      in if channelType ch = GuildNewsThread then ok
         else error \<lparr>identifier = Identifiers_PreconditionGuildNewsThreadOnly,
                     message = ''You can only run this chat input command in server announcement thread channels.''\<rparr>)"

definition GuildNewsThreadOnly_contextMenuRun :: "('i \<Rightarrow> Channel) \<Rightarrow> 'i \<Rightarrow> UserError + unit" where
  "GuildNewsThreadOnly_contextMenuRun fetchChannelFromInteraction interaction =
     (let ch = fetchChannelFromInteraction interaction
      in if channelType ch = GuildNewsThread then ok
         else error \<lparr>identifier = Identifiers_PreconditionGuildNewsThreadOnly,
                     message = ''You can only run this context menu command in server announcement thread channels.''\<rparr>)"

subsection \<open>GuildNewsOnly\<close>

definition allowedTypes :: "ChannelType list" where
  "allowedTypes = [GuildNews, GuildNewsThread]"

definition GuildNewsOnly_messageRun :: "Message \<Rightarrow> UserError + unit" where
  "GuildNewsOnly_messageRun msg =
     (if includes allowedTypes (channelType (channel msg)) then ok
      else error \<lparr>identifier = Identifiers_PreconditionGuildNewsOnly,
                  message = ''You can only run this message command in server announcement channels.''\<rparr>)"

definition GuildNewsOnly_chatInputRun :: "('i \<Rightarrow> Channel) \<Rightarrow> 'i \<Rightarrow> UserError + unit" where
  "GuildNewsOnly_chatInputRun fetchChannelFromInteraction interaction =
     (let ch = fetchChannelFromInteraction interaction
      in if includes allowedTypes (channelType ch) then ok
         else error \<lparr>identifier = Identifiers_PreconditionGuildNewsOnly,
                     message = ''You can only run this chat input command in server announcement channels.''\<rparr>)"

definition GuildNewsOnly_contextMenuRun :: "('i \<Rightarrow> Channel) \<Rightarrow> 'i \<Rightarrow> UserError + unit" where
  "GuildNewsOnly_contextMenuRun fetchChannelFromInteraction interaction =
     (let ch = fetchChannelFromInteraction interaction
      in if includes allowedTypes (channelType ch) then ok
         else error \<lparr>identifier = Identifiers_PreconditionGuildNewsOnly,
                     message = ''You can only run this context menu command in server announcement channels.''\<rparr>)"

section \<open>Interaction handlers and their store\<close>

text \<open>
  Modelled from the spec: \<open>Maybe\<close>, \<open>some\<close>, \<open>none\<close> and \<open>isSome\<close> come from lib/parsers/Maybe, which
  is not among the sources: a claim with an optional payload, or no claim. A payload may be
  \<open>undefined\<close>.
\<close>

datatype 'p Payload = Undefined | Defined 'p

type_synonym 'p Maybe = "'p Payload option"

definition some :: "'p Payload \<Rightarrow> 'p Maybe" where
  "some data = Some data"

definition none :: "'p Maybe" where
  "none = None"

definition isSome :: "'p Maybe \<Rightarrow> bool" where
  "isSome m = (m \<noteq> None)"

text \<open>
  An interaction answers the three type-guard queries. A handler's \<open>parse\<close> step is awaited
  inside \<open>try\<close>: it either throws (or rejects) or returns a \<open>Maybe\<close>. A handler's \<open>run\<close> step is
  called without \<open>await\<close> and outside any \<open>try\<close>: the call itself either throws, or returns a
  value or promise that \<open>Promise.allSettled\<close> later reports as fulfilled or rejected. Every
  awaited promise is taken to settle.
\<close>

datatype InteractionHandlerTypes = Button | SelectMenu | MessageComponent

record Interaction =
  isButton :: bool
  isSelectMenu :: bool
  isMessageComponent :: bool

datatype ('p, 'x) ParseOutcome = ParseThrows 'x | ParseReturns "'p Maybe"

datatype 'x Settled = Fulfilled | Rejected 'x

datatype 'x RunOutcome = RunThrows 'x | RunReturns "'x Settled"

record ('p, 'x) InteractionHandler =
  pieceName :: string
  interactionHandlerType :: InteractionHandlerTypes
  parse :: "Interaction \<Rightarrow> ('p, 'x) ParseOutcome"
  handlerRun :: "Interaction \<Rightarrow> 'p Payload \<Rightarrow> 'x RunOutcome"

text \<open>The \<open>parse\<close> of the base class: every interaction is claimed, with no payload.\<close>

definition InteractionHandler_parse :: "Interaction \<Rightarrow> ('p, 'x) ParseOutcome" where
  "InteractionHandler_parse interaction = ParseReturns (some Undefined)"

definition InteractionHandlerFilters :: "InteractionHandlerTypes \<rightharpoonup> (Interaction \<Rightarrow> bool)" where
  "InteractionHandlerFilters t =
     (case t of
        Button \<Rightarrow> Some (\<lambda>interaction. isButton interaction)
      | SelectMenu \<Rightarrow> Some (\<lambda>interaction. isSelectMenu interaction)
      | MessageComponent \<Rightarrow> Some (\<lambda>interaction. isMessageComponent interaction))"

text \<open>
  A scheduled run step: the handler, the payload it was called with, and how its promise
  settles. The loop over the handlers either completes with the scheduled run steps, or is
  left by the exception of a run step that threw when called; then the run steps called so
  far, the last of which threw, are recorded.
\<close>

record ('p, 'x) Scheduled =
  handler :: string
  parsedData :: "'p Payload"
  settles :: "'x Settled"

datatype ('p, 'x) Loop =
    LoopDone "('p, 'x) Scheduled list"
  | LoopThrew "('p, 'x) Scheduled list" "string \<times> 'p Payload" 'x

fun handlersLoop ::
  "Interaction \<Rightarrow> ('p, 'x) InteractionHandler list \<Rightarrow> ('p, 'x) Scheduled list
     \<Rightarrow> ('p, 'x) Loop" where
  "handlersLoop interaction [] promises = LoopDone promises"
| "handlersLoop interaction (h # hs) promises =
     (case InteractionHandlerFilters (interactionHandlerType h) of
        None \<Rightarrow> handlersLoop interaction hs promises
      | Some filter' \<Rightarrow>
          if \<not> filter' interaction then handlersLoop interaction hs promises
          else
            (case parse h interaction of
               ParseThrows err \<Rightarrow> handlersLoop interaction hs promises
             | ParseReturns result \<Rightarrow>
                 if isSome result then
                   (case handlerRun h interaction (the result) of
                      RunThrows err \<Rightarrow> LoopThrew promises (pieceName h, the result) err
                    | RunReturns s \<Rightarrow>
                        handlersLoop interaction hs
                          (promises @ [\<lparr>handler = pieceName h, parsedData = the result,
                                        settles = s\<rparr>]))
                 else handlersLoop interaction hs promises))"

declare handlersLoop.simps [simp del]

text \<open>
  The outcome of a dispatch: the run steps that were called, in order, with their payloads,
  and the exception that left \<open>run\<close>, if any.
\<close>

record ('p, 'x) Dispatch =
  called :: "(string \<times> 'p Payload) list"
  escaped :: "'x option"

definition allSettled :: "('p, 'x) Scheduled list \<Rightarrow> 'x Settled list" where
  "allSettled promises = map settles promises"

definition InteractionHandlerStore_run ::
  "('p, 'x) InteractionHandler list \<Rightarrow> Interaction \<Rightarrow> ('p, 'x) Dispatch" where
  "InteractionHandlerStore_run store interaction =
     (if length store = 0 then \<lparr>called = [], escaped = None\<rparr>
      else
        (case handlersLoop interaction store [] of
           LoopThrew promises c err \<Rightarrow>
             \<lparr>called = map (\<lambda>s. (handler s, parsedData s)) promises @ [c], escaped = Some err\<rparr>
         | LoopDone promises \<Rightarrow>
             if length promises = 0 then \<lparr>called = [], escaped = None\<rparr>
             else
               (let results = allSettled promises
                in \<lparr>called = map (\<lambda>s. (handler s, parsedData s)) promises,
                    escaped = None\<rparr>)))"

text \<open>
  \<open>scheduledBy interaction h\<close>: the run steps that one pass of the loop body schedules for
  the handler \<open>h\<close> when its run step does not throw when called: none when the handler is
  skipped, one when it claims the interaction.
\<close>

definition scheduledBy ::
  "Interaction \<Rightarrow> ('p, 'x) InteractionHandler \<Rightarrow> ('p, 'x) Scheduled list" where
  "scheduledBy interaction h =
     (case InteractionHandlerFilters (interactionHandlerType h) of
        None \<Rightarrow> []
      | Some filter' \<Rightarrow>
          if \<not> filter' interaction then []
          else
            (case parse h interaction of
               ParseThrows err \<Rightarrow> []
             | ParseReturns result \<Rightarrow>
                 if isSome result then
                   (case handlerRun h interaction (the result) of
                      RunThrows err \<Rightarrow> []
                    | RunReturns s \<Rightarrow>
                        [\<lparr>handler = pieceName h, parsedData = the result, settles = s\<rparr>])
                 else []))"

section \<open>Frame and example data\<close>

text \<open>
  \<open>onlyCursor a b\<close>: the facade \<open>b\<close> differs from \<open>a\<close> at most in the position of the cursor:
  the invocation context, the checkpoint stack and the tokens are the same.
\<close>

definition onlyCursor :: "'c MessageArgs \<Rightarrow> 'c MessageArgs \<Rightarrow> bool" where
  "onlyCursor a b =
     (commandContext b = commandContext a \<and> states b = states a \<and>
      ordered (parser b) = ordered (parser a))"

text \<open>
  Example data for concrete instances: a resolver that accepts every token except \<open>!\<close>,
  registered under the name \<open>word\<close>, and a fresh facade over given tokens.
\<close>

definition wordArgument :: "(unit, unit, string) IArgument" where
  "wordArgument =
     \<lparr>name = ''word'',
      run = (\<lambda>arg c opts.
               if arg = ''!''
               then Inl \<lparr>identifier = ''wordError'', message = ''Not a word.'', parameter = arg\<rparr>
               else Inr arg)\<rparr>"

definition wordStore :: "(unit, unit, string) ArgumentStore" where
  "wordStore = [''word'' \<mapsto> wordArgument]"

definition wordOptions :: "Number option \<Rightarrow> (unit, unit, string) ArgsOptions" where
  "wordOptions n = \<lparr>type = TypeName ''word'', times = n, other = ()\<rparr>"

definition argsOver :: "string list \<Rightarrow> nat \<Rightarrow> unit MessageArgs" where
  "argsOver tokens position =
     \<lparr>commandContext = (), parser = \<lparr>ordered = tokens, state = position\<rparr>, states = []\<rparr>"

text \<open>
  Example data for concrete dispatches: the press of a button, a handler whose \<open>parse\<close> step
  throws, a handler that claims and whose \<open>run\<close> step throws when called, and a handler that
  keeps the \<open>parse\<close> of the base class and whose \<open>run\<close> step has a given outcome.
\<close>

definition buttonPress :: Interaction where
  "buttonPress = \<lparr>isButton = True, isSelectMenu = False, isMessageComponent = True\<rparr>"

definition faultyHandler :: "(unit, string) InteractionHandler" where
  "faultyHandler =
     \<lparr>pieceName = ''faulty'', interactionHandlerType = Button,
      parse = (\<lambda>interaction. ParseThrows ''parse failed''),
      handlerRun = (\<lambda>interaction parsedData. RunReturns Fulfilled)\<rparr>"

definition throwingHandler :: "(unit, string) InteractionHandler" where
  "throwingHandler =
     \<lparr>pieceName = ''thrower'', interactionHandlerType = Button,
      parse = InteractionHandler_parse,
      handlerRun = (\<lambda>interaction parsedData. RunThrows ''run failed'')\<rparr>"

definition plainHandler :: "string RunOutcome \<Rightarrow> (unit, string) InteractionHandler" where
  "plainHandler outcome =
     \<lparr>pieceName = ''plain'', interactionHandlerType = Button,
      parse = InteractionHandler_parse,
      handlerRun = (\<lambda>interaction parsedData. outcome)\<rparr>"

section \<open>Extractions move only the cursor\<close>

lemma singleParseAsync_ordered: "ordered (snd (singleParseAsync f p)) = ordered p"
  by (simp add: singleParseAsync_def split: sum.splits)

lemma onlyCursor_refl: "onlyCursor a a"
  by (simp add: onlyCursor_def)

lemma onlyCursor_trans: "onlyCursor a b \<Longrightarrow> onlyCursor b c \<Longrightarrow> onlyCursor a c"
  by (simp add: onlyCursor_def)

lemma onlyCursor_parser: "ordered p = ordered (parser a) \<Longrightarrow> onlyCursor a (a\<lparr>parser := p\<rparr>)"
  by (simp add: onlyCursor_def)

lemma onlyCursor_single:
  "singleParseAsync f (parser a) = (r, p) \<Longrightarrow> onlyCursor a (a\<lparr>parser := p\<rparr>)"
  using singleParseAsync_ordered[of f "parser a"] by (simp add: onlyCursor_parser)

lemma pickResult_onlyCursor: "onlyCursor a (snd (pickResult store options a))"
proof (cases "resolveArgument store (type options)")
  case None
  then show ?thesis by (simp add: pickResult_def onlyCursor_refl)
next
  case (Some argument)
  obtain r p where rp: "singleParseAsync (\<lambda>arg. run argument arg (commandContext a) (other options)) (parser a) = (r, p)"
    by (cases "singleParseAsync (\<lambda>arg. run argument arg (commandContext a) (other options)) (parser a)")
  then have "onlyCursor a (a\<lparr>parser := p\<rparr>)" by (rule onlyCursor_single)
  then show ?thesis using Some rp
    by (auto simp: pickResult_def split: sum.splits option.splits)
qed

lemma restResult_onlyCursor: "onlyCursor a (snd (restResult store options a))"
  by (auto simp: restResult_def onlyCursor_def many_def restore_stream_def save_stream_def Let_def
      split: option.splits sum.splits)

lemma repeatLoop_onlyCursor: "onlyCursor a (snd (repeatLoop argument opts n i out a))"
proof (induction argument opts n i out a rule: repeatLoop.induct)
  case (1 argument opts n i out a)
  obtain r p where rp: "singleParseAsync (\<lambda>arg. run argument arg (commandContext a) opts) (parser a) = (r, p)"
    by (cases "singleParseAsync (\<lambda>arg. run argument arg (commandContext a) opts) (parser a)")
  then have step: "onlyCursor a (a\<lparr>parser := p\<rparr>)" by (rule onlyCursor_single)
  show ?case
  proof (cases "counterLess i n")
    case False
    then show ?thesis by (subst repeatLoop.simps) (simp add: onlyCursor_refl)
  next
    case True
    show ?thesis
    proof (cases r)
      case (Inl eo)
      then show ?thesis using True rp step
        by (subst repeatLoop.simps) (auto split: option.splits)
    next
      case (Inr v)
      have "onlyCursor (a\<lparr>parser := p\<rparr>)
              (snd (repeatLoop argument opts n (Suc i) (out @ [v]) (a\<lparr>parser := p\<rparr>)))"
        using "1.IH"[OF True rp[symmetric] Inr] .
      with step have "onlyCursor a (snd (repeatLoop argument opts n (Suc i) (out @ [v]) (a\<lparr>parser := p\<rparr>)))"
        by (rule onlyCursor_trans)
      then show ?thesis using True rp Inr
        by (subst repeatLoop.simps) simp
    qed
  qed
qed

lemma repeatResult_onlyCursor: "onlyCursor a (snd (repeatResult store options a))"
  by (simp add: repeatResult_def onlyCursor_refl repeatLoop_onlyCursor split: option.splits)

lemma snd_asResult: "snd (asResult f r) = snd r"
  by (simp add: asResult_def split: prod.splits sum.splits)

lemma snd_returned: "snd (returned r) = snd r"
  by (simp add: returned_def split: prod.splits)

lemma snd_unwrapRaw: "snd (unwrapRaw r) = snd r"
  by (simp add: unwrapRaw_def split: prod.splits sum.splits)

lemma snd_asSuccess: "snd (asSuccess f r) = snd r"
  by (simp add: asSuccess_def split: prod.splits Completion.splits)

lemma callExtraction_onlyCursor: "onlyCursor a (snd (callExtraction store f a))"
proof (induction f arbitrary: a)
  case (Then f g)
  show ?case
  proof (cases "callExtraction store f a")
    case (Pair c a')
    with Then.IH(1)[of a] have first: "onlyCursor a a'" by simp
    show ?thesis
    proof (cases c)
      case (Throws x)
      with Pair first show ?thesis by simp
    next
      case (Returns r)
      from first Then.IH(2)[of a']
      have "onlyCursor a (snd (callExtraction store g a'))" by (rule onlyCursor_trans)
      with Pair Returns show ?thesis by simp
    qed
  qed
qed (simp_all add: snd_asResult snd_returned snd_asSuccess snd_unwrapRaw pick_def rest_def
       repeat_def pickResult_onlyCursor restResult_onlyCursor repeatResult_onlyCursor)

lemma restore_after_save:
  assumes "onlyCursor (save a) b"
  shows "restore b = a"
proof -
  from assms have c: "commandContext b = commandContext a"
    and s: "states b = states a @ [state (parser a)]"
    and o: "ordered (parser b) = ordered (parser a)"
    by (simp_all add: onlyCursor_def save_def save_stream_def)
  have "parser (restore b) = parser a"
    using s o by (simp add: restore_def restore_stream_def)
  moreover have "states (restore b) = states a"
    using s by (simp add: restore_def)
  moreover have "commandContext (restore b) = commandContext a"
    using c by (simp add: restore_def)
  ultimately show ?thesis by simp
qed

section \<open>Checkpoints\<close>

text \<open>
  Claim C9. \<open>restore\<close> with an empty checkpoint stack changes nothing (and raises nothing: it
  returns the facade as it is); with a non-empty stack it removes exactly the last saved
  state and rewinds the cursor to it. In particular \<open>save\<close> followed by \<open>restore\<close> is the
  identity.
\<close>

theorem restore_pops_one:
  "(states a = [] \<longrightarrow> restore a = a) \<and>
   (states a = ss @ [s] \<longrightarrow>
      restore a = a\<lparr>parser := (parser a)\<lparr>state := s\<rparr>, states := ss\<rparr>) \<and>
   restore (save a) = a"
proof -
  have "restore (save a) = a"
    by (rule restore_after_save) (rule onlyCursor_refl)
  then show ?thesis by (simp add: restore_def restore_stream_def)
qed

theorem restore_pops_one_witness:
  "restore (argsOver [''a'', ''b''] 2) = argsOver [''a'', ''b''] 2 \<and>
   restore ((argsOver [''a'', ''b''] 2)\<lparr>states := [0, 1]\<rparr>)
     = (argsOver [''a'', ''b''] 1)\<lparr>states := [0]\<rparr>"
  using restore_pops_one[of "argsOver [''a'', ''b''] 2"]
    restore_pops_one[of "(argsOver [''a'', ''b''] 2)\<lparr>states := [0, 1]\<rparr>" "[0]" 1]
  by (simp add: argsOver_def)

section \<open>Peeking\<close>

text \<open>
  Whenever \<open>peekResult\<close> returns, with a success or with an error result, the facade is the
  one before the call: stream, cursor and checkpoint stack. With an argument type it always
  returns.
\<close>

lemma peekResult_returns_restores:
  assumes "peekResult store options a = (Returns result, a')"
  shows "a' = a"
proof -
  define c where
    "c = (case options of
            PeekFunction f \<Rightarrow> callExtraction store f (save a)
          | PeekArgument opts \<Rightarrow> returned (asResult Single (pickResult store opts (save a))))"
  have frame: "onlyCursor (save a) (snd c)"
    unfolding c_def
    by (cases options)
       (simp_all add: callExtraction_onlyCursor snd_returned snd_asResult pickResult_onlyCursor)
  obtain k a2 where c: "c = (k, a2)" by (cases c)
  with frame have "restore a2 = a" by (simp add: restore_after_save)
  moreover from assms c have "k = Returns result" and "a' = restore a2"
    by (auto simp: peekResult_def Let_def c_def[symmetric] split: Completion.splits)
  ultimately show ?thesis by simp
qed

lemma peekResult_argument_returns:
  "\<exists>result. peekResult store (PeekArgument opts) a = (Returns result, a)"
proof -
  obtain r a2 where r: "asResult Single (pickResult store opts (save a)) = (r, a2)"
    by (cases "asResult Single (pickResult store opts (save a))")
  then have p: "peekResult store (PeekArgument opts) a = (Returns r, restore a2)"
    by (simp add: peekResult_def Let_def returned_def)
  from peekResult_returns_restores[OF p] p show ?thesis by auto
qed

text \<open>
  Claim C1. \<open>peekResult\<close> should leave the cursor where it was before the call, whether the
  underlying extraction, a pick by type or a function of the caller running \<open>pick\<close>, \<open>rest\<close> or
  \<open>repeat\<close>, succeeds or fails. Here the caller's function runs \<open>pick\<close> twice over the tokens
  \<open>a\<close> and \<open>!\<close>: the first call consumes \<open>a\<close>, the second fails and throws, and the exception
  leaves \<open>peekResult\<close> before the checkpoint is restored. The cursor stays behind \<open>a\<close> and
  the checkpoint stays on the stack.
\<close>

theorem peekResult_throw_skips_restore:
  "peekResult wordStore
     (PeekFunction (Then (CallPick (wordOptions None)) (CallPick (wordOptions None))))
     (argsOver [''a'', ''!''] 0)
   = (Throws (IsArgumentError \<lparr>identifier = ''wordError'', message = ''Not a word.'',
                                 parameter = ''!''\<rparr>),
      \<lparr>commandContext = (), parser = \<lparr>ordered = [''a'', ''!''], state = 1\<rparr>, states = [0]\<rparr>)"
  by (simp add: peekResult_def save_def save_stream_def pick_def unwrapRaw_def asSuccess_def
      pickResult_def resolveArgument_def singleParseAsync_def finished_def wordStore_def
      wordOptions_def wordArgument_def argsOver_def)

section \<open>Picking from an exhausted stream\<close>

text \<open>
  Claim C6. When no token is left, \<open>pickResult\<close> with a registered argument type returns the
  error whose identifier is the "missing argument" one and leaves the facade, hence the
  cursor, unchanged. That identifier differs from the one of the unknown-argument-type
  error, and the error is not a resolver's \<open>ArgumentError\<close>.
\<close>

theorem pickResult_exhausted:
  assumes "finished (parser a)"
    and "resolveArgument store (type options) = Some argument"
  shows "pickResult store options a
           = (Inl (IsUserError \<lparr>identifier = Identifiers_ArgsMissing,
                                 message = ''There are no more arguments.''\<rparr>), a)
         \<and> Identifiers_ArgsMissing \<noteq> Identifiers_ArgsUnavailable
         \<and> fst (pickResult store options a) \<noteq> unavailableArgument (type options)
         \<and> (\<forall>e. fst (pickResult store options a) \<noteq> Inl (IsArgumentError e))"
proof -
  have "pickResult store options a = (missingArguments, a)"
    using assms by (simp add: pickResult_def singleParseAsync_def)
  then show ?thesis
    by (simp add: missingArguments_def unavailableArgument_def Identifiers_ArgsMissing_def
        Identifiers_ArgsUnavailable_def)
qed

theorem pickResult_exhausted_witness:
  "pickResult wordStore (wordOptions None) (argsOver [''a''] 1)
     = (Inl (IsUserError \<lparr>identifier = ''argsMissing'',
                           message = ''There are no more arguments.''\<rparr>), argsOver [''a''] 1)"
  using pickResult_exhausted[of "argsOver [''a''] 1" wordStore "wordOptions None" wordArgument]
  by (simp add: wordStore_def wordOptions_def argsOver_def resolveArgument_def finished_def
      Identifiers_ArgsMissing_def)

section \<open>Rest\<close>

lemma restResult_rejected:
  assumes "resolveArgument store (type options) = Some argument"
    and "\<not> finished (parser a)"
    and "run argument (join (drop (state (parser a)) (ordered (parser a)))) (commandContext a)
           (other options) = Inl e"
  shows "restResult store options a = (Inl (IsArgumentError e), a)"
  using assms
  by (simp add: restResult_def Let_def many_def unwrapOr_def restore_stream_def save_stream_def)

text \<open>
  Claim C4. When \<open>restResult\<close> fails, in particular when the resolver rejects the joined
  remaining tokens, the facade afterwards is the facade before the attempt: the cursor is
  back at its position, and a following \<open>pickResult\<close> behaves as if \<open>restResult\<close> had not run.
\<close>

theorem restResult_failure_restores:
  assumes "restResult store options a = (Inl err, a')"
  shows "a' = a \<and> pickResult store options' a' = pickResult store options' a"
proof -
  have "a' = a"
  proof (cases "resolveArgument store (type options)")
    case None
    with assms show ?thesis by (simp add: restResult_def)
  next
    case (Some argument)
    show ?thesis
    proof (cases "finished (parser a)")
      case True
      with Some assms show ?thesis by (simp add: restResult_def)
    next
      case False
      have "restore_stream (save_stream (parser a)) (snd (many (parser a))) = parser a"
        using False by (simp add: many_def restore_stream_def save_stream_def)
      with Some False assms show ?thesis
        by (auto simp: restResult_def Let_def case_prod_beta split: sum.splits)
    qed
  qed
  then show ?thesis by simp
qed

theorem restResult_failure_restores_witness:
  "restResult wordStore (wordOptions None) (argsOver [''a'', ''!''] 1)
     = (Inl (IsArgumentError \<lparr>identifier = ''wordError'', message = ''Not a word.'',
                               parameter = ''!''\<rparr>),
        argsOver [''a'', ''!''] 1)
   \<and> argsOver [''a'', ''!''] 1 = argsOver [''a'', ''!''] 1
   \<and> pickResult wordStore (wordOptions None) (argsOver [''a'', ''!''] 1)
       = pickResult wordStore (wordOptions None) (argsOver [''a'', ''!''] 1)"
proof -
  have r: "restResult wordStore (wordOptions None) (argsOver [''a'', ''!''] 1)
     = (Inl (IsArgumentError \<lparr>identifier = ''wordError'', message = ''Not a word.'',
                               parameter = ''!''\<rparr>),
        argsOver [''a'', ''!''] 1)"
    by (simp add: restResult_def wordStore_def wordOptions_def argsOver_def resolveArgument_def
        finished_def wordArgument_def many_def unwrapOr_def restore_stream_def save_stream_def)
  from restResult_failure_restores[OF r, of "wordOptions None"] r show ?thesis by simp
qed

section \<open>Repeat\<close>

lemma singleParseAsync_current:
  "\<not> finished p \<Longrightarrow>
   singleParseAsync f p =
     (case f (ordered p ! state p) of
        Inl e \<Rightarrow> (Inl (Some e), p)
      | Inr v \<Rightarrow> (Inr v, p\<lparr>state := Suc (state p)\<rparr>))"
  by (simp add: singleParseAsync_def)

text \<open>
  Claim C3. On a stream with a token left, if \<open>repeatResult\<close> makes a first attempt (the type
  resolves and \<open>0 < times\<close> holds) and the resolver fails on it, then \<open>repeatResult\<close> returns
  that resolver's error, not an empty success; the cursor has not moved.
\<close>

theorem repeatResult_first_failure:
  assumes resolved: "resolveArgument store (type options) = Some argument"
    and nonempty: "\<not> finished (parser a)"
    and attempt: "counterLess 0 (unwrapOr (times options) PlusInfinity)"
    and fails: "run argument (ordered (parser a) ! state (parser a)) (commandContext a)
                  (other options) = Inl e"
  shows "repeatResult store options a = (Inl (IsArgumentError e), a)"
proof -
  have "singleParseAsync (\<lambda>arg. run argument arg (commandContext a) (other options))
                   (parser a) = (Inl (Some e), parser a)"
    using nonempty fails by (simp add: singleParseAsync_current)
  with attempt have "repeatLoop argument (other options) (unwrapOr (times options) PlusInfinity) 0 [] a
                    = (Inl (IsArgumentError e), a)"
    by (subst repeatLoop.simps) simp
  then show ?thesis using resolved nonempty by (simp add: repeatResult_def)
qed

theorem repeatResult_first_failure_witness:
  "repeatResult wordStore (wordOptions (Some (Finite 3))) (argsOver [''a'', ''!'', ''b''] 1)
     = (Inl (IsArgumentError \<lparr>identifier = ''wordError'', message = ''Not a word.'',
                               parameter = ''!''\<rparr>),
        argsOver [''a'', ''!'', ''b''] 1)"
  using repeatResult_first_failure[of wordStore "wordOptions (Some (Finite 3))" wordArgument
      "argsOver [''a'', ''!'', ''b''] 1"
      "\<lparr>identifier = ''wordError'', message = ''Not a word.'', parameter = ''!''\<rparr>"]
  by (simp add: wordStore_def wordOptions_def argsOver_def resolveArgument_def finished_def
      wordArgument_def unwrapOr_def)








section \<open>Properties of the run-context preconditions\<close>

text \<open>
  Claim C7. When the context of the \<open>RunIn\<close> precondition configures no allow-list, each of
  the three entry points returns ok, for every message, every interaction and whatever
  channel is resolved.
\<close>

theorem RunIn_unconfigured_ok:
  assumes "types ctx = None"
  shows "RunIn_messageRun msg ctx = ok \<and>
         RunIn_chatInputRun fetchChat chatInput ctx = ok \<and>
         RunIn_contextMenuRun fetchMenu contextMenu ctx = ok"
  using assms by (simp add: RunIn_messageRun_def RunIn_chatInputRun_def RunIn_contextMenuRun_def)

theorem RunIn_unconfigured_ok_witness:
  "RunIn_messageRun \<lparr>channel = \<lparr>channelType = DM\<rparr>, thread = None\<rparr> \<lparr>types = None\<rparr> = Inr () \<and>
   RunIn_chatInputRun (\<lambda>i. \<lparr>channelType = GuildVoice\<rparr>) ''chat'' \<lparr>types = None\<rparr> = Inr () \<and>
   RunIn_contextMenuRun (\<lambda>i. \<lparr>channelType = GuildText\<rparr>) ''menu'' \<lparr>types = None\<rparr> = Inr ()"
  using RunIn_unconfigured_ok[of "\<lparr>types = None\<rparr>"
      "\<lparr>channel = \<lparr>channelType = DM\<rparr>, thread = None\<rparr>"
      "\<lambda>i. \<lparr>channelType = GuildVoice\<rparr>" "''chat''"
      "\<lambda>i. \<lparr>channelType = GuildText\<rparr>" "''menu''"]
  by (simp add: ok_def)

text \<open>
  In \<open>GuildNewsOnly\<close> the three entry points decide alike on the kind of the channel the
  command was sent in: all three return ok, or all three return an error with the same
  identifier. In \<open>GuildNewsThreadOnly\<close> the two interaction entry points decide alike on
  that kind.
\<close>

lemma GuildNewsOnly_entry_points_agree:
  assumes "channelType (channel msg) = k"
    and "channelType (fetchChat chatInput) = k"
    and "channelType (fetchMenu contextMenu) = k"
  shows "map_sum identifier id (GuildNewsOnly_chatInputRun fetchChat chatInput)
           = map_sum identifier id (GuildNewsOnly_messageRun msg)"
    and "map_sum identifier id (GuildNewsOnly_contextMenuRun fetchMenu contextMenu)
           = map_sum identifier id (GuildNewsOnly_messageRun msg)"
    and "GuildNewsOnly_messageRun msg = ok \<longleftrightarrow> k = GuildNews \<or> k = GuildNewsThread"
  using assms
  by (auto simp: GuildNewsOnly_messageRun_def GuildNewsOnly_chatInputRun_def
      GuildNewsOnly_contextMenuRun_def includes_def allowedTypes_def ok_def error_def Let_def)

lemma GuildNewsThreadOnly_interactions_agree:
  assumes "channelType (fetchChat chatInput) = k"
    and "channelType (fetchMenu contextMenu) = k"
  shows "map_sum identifier id (GuildNewsThreadOnly_contextMenuRun fetchMenu contextMenu)
           = map_sum identifier id (GuildNewsThreadOnly_chatInputRun fetchChat chatInput)"
    and "GuildNewsThreadOnly_chatInputRun fetchChat chatInput = ok \<longleftrightarrow> k = GuildNewsThread"
  using assms
  by (auto simp: GuildNewsThreadOnly_chatInputRun_def GuildNewsThreadOnly_contextMenuRun_def
      ok_def error_def Let_def)

lemma GuildNewsThreadOnly_messageRun_reads_thread:
  "GuildNewsThreadOnly_messageRun msg = ok
     \<longleftrightarrow> map_option channelType (thread msg) = Some GuildNewsThread"
  by (simp add: GuildNewsThreadOnly_messageRun_def ok_def error_def)

text \<open>
  Claim C8. In every fixed-kind precondition the three entry points should decide alike
  given the same kind of the resolved channel. In \<open>GuildNewsThreadOnly\<close> they do not: the
  message entry point tests \<open>message.thread\<close>, not the channel of the message as the message
  entry point of \<open>GuildNewsOnly\<close> does. A message sent in a channel of kind
  \<open>GuildNewsThread\<close> that has no thread of its own is refused, while both interaction entry
  points accept a channel of that kind.
\<close>

theorem GuildNewsThreadOnly_messageRun_disagrees:
  "GuildNewsThreadOnly_messageRun \<lparr>channel = \<lparr>channelType = GuildNewsThread\<rparr>, thread = None\<rparr>
     = Inl \<lparr>identifier = ''preconditionGuildNewsThreadOnly'',
            message = ''You can only run this message command in server announcement thread channels.''\<rparr>
   \<and> GuildNewsThreadOnly_chatInputRun (\<lambda>i. \<lparr>channelType = GuildNewsThread\<rparr>) ''chat'' = Inr ()
   \<and> GuildNewsThreadOnly_contextMenuRun (\<lambda>i. \<lparr>channelType = GuildNewsThread\<rparr>) ''menu''
       = Inr ()
   \<and> GuildNewsOnly_messageRun \<lparr>channel = \<lparr>channelType = GuildNewsThread\<rparr>, thread = None\<rparr>
       = Inr ()"
  by (simp add: GuildNewsThreadOnly_messageRun_def GuildNewsThreadOnly_chatInputRun_def
      GuildNewsThreadOnly_contextMenuRun_def GuildNewsOnly_messageRun_def includes_def
      allowedTypes_def Identifiers_PreconditionGuildNewsThreadOnly_def ok_def error_def)

section \<open>Dispatch over the interaction handlers\<close>

lemma handlersLoop_claimed:
  assumes "InteractionHandlerFilters (interactionHandlerType h) = Some f"
    and "f interaction"
    and "parse h interaction = ParseReturns (Some v)"
  shows "handlersLoop interaction (h # hs) promises =
           (case handlerRun h interaction v of
              RunThrows err \<Rightarrow> LoopThrew promises (pieceName h, v) err
            | RunReturns s \<Rightarrow>
                handlersLoop interaction hs
                  (promises @ [\<lparr>handler = pieceName h, parsedData = v, settles = s\<rparr>]))"
  using assms by (simp add: handlersLoop.simps isSome_def split: RunOutcome.splits)

lemma handlersLoop_keeps:
  "x \<in> set promises \<Longrightarrow>
   (case handlersLoop interaction hs promises of
      LoopDone qs \<Rightarrow> x \<in> set qs
    | LoopThrew qs c err \<Rightarrow> x \<in> set qs)"
proof (induction hs arbitrary: promises)
  case Nil
  then show ?case by (simp add: handlersLoop.simps)
next
  case (Cons h hs)
  have skip: "case handlersLoop interaction hs promises of
      LoopDone qs \<Rightarrow> x \<in> set qs
    | LoopThrew qs c err \<Rightarrow> x \<in> set qs"
    using Cons.prems by (rule Cons.IH)
  have extend: "case handlersLoop interaction hs (promises @ [y]) of
      LoopDone qs \<Rightarrow> x \<in> set qs
    | LoopThrew qs c err \<Rightarrow> x \<in> set qs" for y
    using Cons.prems by (intro Cons.IH) simp
  show ?case
    using skip extend Cons.prems
    by (simp add: handlersLoop.simps split: option.splits ParseOutcome.splits RunOutcome.splits)
qed


lemma handlersLoop_step:
  assumes "\<forall>p err. handlerRun g interaction p \<noteq> RunThrows err"
  shows "handlersLoop interaction (g # hs) promises
           = handlersLoop interaction hs (promises @ scheduledBy interaction g)"
  using assms
  by (simp add: handlersLoop.simps scheduledBy_def
      split: option.splits ParseOutcome.splits RunOutcome.splits)

lemma handlersLoop_reaches:
  assumes "\<forall>g\<in>set pre. \<forall>p err. handlerRun g interaction p \<noteq> RunThrows err"
  shows "handlersLoop interaction (pre @ post) promises
           = handlersLoop interaction post (promises @ concat (map (scheduledBy interaction) pre))"
  using assms
proof (induction pre arbitrary: promises)
  case Nil
  then show ?case by simp
next
  case (Cons g pre)
  from Cons.prems have "\<forall>p err. handlerRun g interaction p \<noteq> RunThrows err" by simp
  then have "handlersLoop interaction ((g # pre) @ post) promises
           = handlersLoop interaction (pre @ post) (promises @ scheduledBy interaction g)"
    using handlersLoop_step[of g interaction "pre @ post" promises] by simp
  also have "\<dots> = handlersLoop interaction post
                     ((promises @ scheduledBy interaction g)
                        @ concat (map (scheduledBy interaction) pre))"
    using Cons.prems by (intro Cons.IH) simp
  finally show ?case by simp
qed


lemma called_member:
  assumes "\<lparr>handler = n, parsedData = v, settles = s\<rparr> \<in> set promises"
  shows "(n, v) \<in> set (map (\<lambda>s. (handler s, parsedData s)) promises)"
proof -
  have "(n, v) \<in> (\<lambda>s. (handler s, parsedData s)) ` set promises"
    using assms by (rule rev_image_eqI) simp
  then show ?thesis by simp
qed

lemma run_called_from:
  assumes "InteractionHandlerFilters (interactionHandlerType h) = Some f"
    and "f interaction"
    and "parse h interaction = ParseReturns (Some v)"
    and "L = handlersLoop interaction (h # hs) promises"
  shows "case L of
           LoopDone qs \<Rightarrow> (pieceName h, v) \<in> set (map (\<lambda>s. (handler s, parsedData s)) qs)
         | LoopThrew qs c err \<Rightarrow>
             (pieceName h, v) \<in> set (map (\<lambda>s. (handler s, parsedData s)) qs @ [c])"
proof (cases "handlerRun h interaction v")
  case (RunThrows err)
  with handlersLoop_claimed[OF assms(1-3), of hs promises] assms(4) show ?thesis by simp
next
  case (RunReturns s)
  let ?y = "\<lparr>handler = pieceName h, parsedData = v, settles = s\<rparr>"
  from RunReturns handlersLoop_claimed[OF assms(1-3), of hs promises] assms(4)
  have L: "L = handlersLoop interaction hs (promises @ [?y])" by simp
  have "?y \<in> set (promises @ [?y])" by simp
  from handlersLoop_keeps[OF this, of interaction hs]
  have "case L of LoopDone qs \<Rightarrow> ?y \<in> set qs | LoopThrew qs c err \<Rightarrow> ?y \<in> set qs"
    using L by simp
  then show ?thesis
  proof (cases L)
    case (LoopDone qs)
    with \<open>case L of LoopDone qs \<Rightarrow> ?y \<in> set qs | LoopThrew qs c err \<Rightarrow> ?y \<in> set qs\<close>
    have "?y \<in> set qs" by simp
    from called_member[OF this] LoopDone show ?thesis by simp
  next
    case (LoopThrew qs c err)
    with \<open>case L of LoopDone qs \<Rightarrow> ?y \<in> set qs | LoopThrew qs c err \<Rightarrow> ?y \<in> set qs\<close>
    have "?y \<in> set qs" by simp
    from called_member[OF this] LoopThrew show ?thesis by simp
  qed
qed

text \<open>
  A handler that keeps the \<open>parse\<close> of the base class claims every interaction, with the
  payload \<open>undefined\<close>. When its type filter accepts the interaction, the loop of the store,
  arrived at this handler, calls its \<open>run\<close> step with that payload; and the call appears among
  the run steps of a dispatch as long as the loop is not left before it by a run step that
  throws when called.
\<close>

lemma default_parse_claims:
  assumes "parse h = InteractionHandler_parse"
    and "InteractionHandlerFilters (interactionHandlerType h) = Some f"
    and "f interaction"
  shows "parse h interaction = ParseReturns (some Undefined) \<and>
         handlersLoop interaction (h # hs) promises =
           (case handlerRun h interaction Undefined of
              RunThrows err \<Rightarrow> LoopThrew promises (pieceName h, Undefined) err
            | RunReturns s \<Rightarrow>
                handlersLoop interaction hs
                  (promises @ [\<lparr>handler = pieceName h, parsedData = Undefined, settles = s\<rparr>])) \<and>
         ((\<forall>g\<in>set pre. \<forall>p err. handlerRun g interaction p \<noteq> RunThrows err) \<longrightarrow>
            (pieceName h, Undefined)
              \<in> set (called (InteractionHandlerStore_run (pre @ h # hs) interaction)))"
proof (intro conjI impI)
  show p: "parse h interaction = ParseReturns (some Undefined)"
    using assms(1) by (simp add: InteractionHandler_parse_def)
  then have p': "parse h interaction = ParseReturns (Some Undefined)"
    by (simp add: some_def)
  show "handlersLoop interaction (h # hs) promises =
           (case handlerRun h interaction Undefined of
              RunThrows err \<Rightarrow> LoopThrew promises (pieceName h, Undefined) err
            | RunReturns s \<Rightarrow>
                handlersLoop interaction hs
                  (promises @ [\<lparr>handler = pieceName h, parsedData = Undefined, settles = s\<rparr>]))"
    using assms(2,3) p' by (rule handlersLoop_claimed)
  assume "\<forall>g\<in>set pre. \<forall>p err. handlerRun g interaction p \<noteq> RunThrows err"
  from handlersLoop_reaches[OF this, of "h # hs" "[]"]
  have r: "handlersLoop interaction (pre @ h # hs) []
             = handlersLoop interaction (h # hs) (concat (map (scheduledBy interaction) pre))"
    by simp
  from run_called_from[OF assms(2,3) p' refl, of hs "concat (map (scheduledBy interaction) pre)"]
  show "(pieceName h, Undefined)
              \<in> set (called (InteractionHandlerStore_run (pre @ h # hs) interaction))"
    unfolding InteractionHandlerStore_run_def r
    by (cases "handlersLoop interaction (h # hs) (concat (map (scheduledBy interaction) pre))")
       (auto simp: Let_def simp del: set_map)
qed

lemma default_parse_claims_example:
  "parse (plainHandler (RunReturns Fulfilled)) buttonPress = ParseReturns (Some Undefined) \<and>
   (''plain'', Undefined)
     \<in> set (called (InteractionHandlerStore_run
                      [faultyHandler, plainHandler (RunReturns Fulfilled), faultyHandler]
                      buttonPress))"
  using default_parse_claims[of "plainHandler (RunReturns Fulfilled)" isButton buttonPress
      "[faultyHandler]" "[]" "[faultyHandler]"]
  by (simp add: plainHandler_def faultyHandler_def buttonPress_def InteractionHandlerFilters_def
      some_def)

text \<open>
  A dispatch in which no run step throws when called returns normally, whatever the \<open>parse\<close>
  steps do and however the promises of the run steps settle; and it calls the run step of
  every handler that claims the interaction, next to handlers whose \<open>parse\<close> step throws.
\<close>

lemma InteractionHandlerStore_run_isolates:
  assumes "\<forall>g\<in>set store. \<forall>p err. handlerRun g interaction p \<noteq> RunThrows err"
  shows "InteractionHandlerStore_run store interaction
           = \<lparr>called = map (\<lambda>s. (handler s, parsedData s))
                         (concat (map (scheduledBy interaction) store)),
              escaped = None\<rparr>"
proof -
  have "handlersLoop interaction (store @ []) []
          = handlersLoop interaction [] ([] @ concat (map (scheduledBy interaction) store))"
    using assms by (rule handlersLoop_reaches)
  then have "handlersLoop interaction store []
               = LoopDone (concat (map (scheduledBy interaction) store))"
    by (simp add: handlersLoop.simps)
  then show ?thesis
    by (cases store) (simp_all add: InteractionHandlerStore_run_def Let_def)
qed

lemma scheduledBy_claimed:
  assumes "InteractionHandlerFilters (interactionHandlerType h) = Some f"
    and "f interaction"
    and "parse h interaction = ParseReturns (Some v)"
    and "handlerRun h interaction v = RunReturns s"
  shows "scheduledBy interaction h = [\<lparr>handler = pieceName h, parsedData = v, settles = s\<rparr>]"
  using assms by (simp add: scheduledBy_def isSome_def)

lemma parse_failure_isolated:
  assumes nothrow: "\<forall>g\<in>set store. \<forall>p err. handlerRun g interaction p \<noteq> RunThrows err"
    and "h \<in> set store"
    and "InteractionHandlerFilters (interactionHandlerType h) = Some f"
    and "f interaction"
    and "parse h interaction = ParseReturns (Some v)"
  shows "(pieceName h, v) \<in> set (called (InteractionHandlerStore_run store interaction)) \<and>
         escaped (InteractionHandlerStore_run store interaction) = None"
proof -
  from nothrow assms(2) obtain s where "handlerRun h interaction v = RunReturns s"
    by (cases "handlerRun h interaction v") auto
  with assms(3-5)
  have "scheduledBy interaction h = [\<lparr>handler = pieceName h, parsedData = v, settles = s\<rparr>]"
    by (rule scheduledBy_claimed)
  with assms(2)
  have "\<lparr>handler = pieceName h, parsedData = v, settles = s\<rparr>
          \<in> set (concat (map (scheduledBy interaction) store))"
    by force
  then have "(pieceName h, v)
          \<in> set (map (\<lambda>s. (handler s, parsedData s)) (concat (map (scheduledBy interaction) store)))"
    by (rule called_member)
  then show ?thesis
    using InteractionHandlerStore_run_isolates[OF nothrow] by simp
qed

lemma run_step_rejecting_isolated:
  "InteractionHandlerStore_run [faultyHandler, plainHandler (RunReturns (Rejected ''run failed''))]
       buttonPress
     = \<lparr>called = [(''plain'', Undefined)], escaped = None\<rparr>"
  by (simp add: InteractionHandlerStore_run_def handlersLoop.simps faultyHandler_def
      plainHandler_def buttonPress_def InteractionHandlerFilters_def InteractionHandler_parse_def
      some_def isSome_def)

text \<open>
  Claim C10. A handler that keeps the \<open>parse\<close> of the base class claims every interaction
  its type filter accepts, so its \<open>run\<close> step should be called for every such interaction. In
  the dispatch below it is not: the handler registered before it claims the interaction too,
  its \<open>run\<close> step throws when called, and the loop is left before the second handler is
  looked at.
\<close>

theorem default_handler_not_reached:
  "parse (plainHandler (RunReturns Fulfilled)) buttonPress = ParseReturns (Some Undefined)
   \<and> InteractionHandlerStore_run [throwingHandler, plainHandler (RunReturns Fulfilled)] buttonPress
       = \<lparr>called = [(''thrower'', Undefined)], escaped = Some ''run failed''\<rparr>
   \<and> (''plain'', Undefined)
       \<notin> set (called (InteractionHandlerStore_run
                        [throwingHandler, plainHandler (RunReturns Fulfilled)] buttonPress))"
  by (simp add: InteractionHandlerStore_run_def handlersLoop.simps throwingHandler_def
      plainHandler_def buttonPress_def InteractionHandlerFilters_def InteractionHandler_parse_def
      some_def isSome_def)

text \<open>
  Claim C2. Two registered handlers whose type filters accept the interaction, one whose
  \<open>parse\<close> step throws and one whose \<open>parse\<close> step claims: the run step of the claiming handler
  is called, and no exception should leave the \<open>run\<close> method of the store. The dispatch below
  is such a one, and the exception of the claiming handler's run step leaves the method:
  the run step is called outside the \<open>try\<close> and before \<open>Promise.allSettled\<close>, so an exception
  thrown by the call itself, rather than delivered by a rejected promise, is not captured.
\<close>

theorem run_step_throwing_escapes:
  "InteractionHandlerStore_run [faultyHandler, plainHandler (RunThrows ''run failed'')] buttonPress
     = \<lparr>called = [(''plain'', Undefined)], escaped = Some ''run failed''\<rparr>"
  by (simp add: InteractionHandlerStore_run_def handlersLoop.simps faultyHandler_def
      plainHandler_def buttonPress_def InteractionHandlerFilters_def InteractionHandler_parse_def
      some_def isSome_def)

end
